theory Spec2Isabelle
  imports Complex_Main "HOL-Library.List_Lexorder" "HOL-Library.Char_ord"
begin

section \<open>Trading journal: a shallow embedding of \<^verbatim>\<open>app.py\<close>\<close>

text \<open>
  The embedding follows the Python source function by function. Python floats are read as
  real numbers: sums, differences, products and quotients are exact, so the rounding error
  of the binary format is not part of the model, and neither are infinities or NaN.
  Python strings are byte strings (\<^typ>\<open>string\<close>).
\<close>

subsection \<open>Market sessions\<close>

text \<open>
  A \<^verbatim>\<open>datetime.time\<close> without time zone. Python compares two of them field by field:
  hour, minute, second, microsecond.
\<close>

datatype dt_time = Time (hour: nat) (minute: nat) (second: nat) (microsecond: nat)

definition dt_time :: "nat \<Rightarrow> nat \<Rightarrow> dt_time" where
  "dt_time h m = Time h m 0 0"

fun time_lt :: "dt_time \<Rightarrow> dt_time \<Rightarrow> bool" where
  "time_lt (Time h1 m1 s1 u1) (Time h2 m2 s2 u2) =
     (h1 < h2 \<or> (h1 = h2 \<and> (m1 < m2 \<or> (m1 = m2 \<and> (s1 < s2 \<or> (s1 = s2 \<and> u1 < u2))))))"

definition time_le :: "dt_time \<Rightarrow> dt_time \<Rightarrow> bool" where
  "time_le a b = (time_lt a b \<or> a = b)"

definition MARKET_SESSIONS_UTC :: "(string \<times> dt_time \<times> dt_time) list" where
  "MARKET_SESSIONS_UTC =
     [(''Sydney'', dt_time 21 0, dt_time 6 0),
      (''Tokyo'', dt_time 0 0, dt_time 9 0),
      (''London'', dt_time 8 0, dt_time 17 0),
      (''New York'', dt_time 13 0, dt_time 22 0)]"

text \<open>The body of the first loop of \<^verbatim>\<open>update_market_session\<close>: the open-ness test.\<close>

definition is_open :: "dt_time \<Rightarrow> dt_time \<Rightarrow> dt_time \<Rightarrow> bool" where
  "is_open start stop utc_time =
     (if time_lt start stop then time_le start utc_time \<and> time_lt utc_time stop
      else time_le start utc_time \<or> time_lt utc_time stop)"

text \<open>The first loop: the names of the open sessions, in table order.\<close>

fun active_sessions :: "(string \<times> dt_time \<times> dt_time) list \<Rightarrow> dt_time \<Rightarrow> string list" where
  "active_sessions [] utc_time = []"
| "active_sessions ((name, start, stop) # rest) utc_time =
     (if is_open start stop utc_time then name # active_sessions rest utc_time
      else active_sessions rest utc_time)"

text \<open>
  The nested loops over \<^verbatim>\<open>j\<close> and \<^verbatim>\<open>k\<close> in \<^verbatim>\<open>range(j + 1, len(active_sessions))\<close>,
  run only when more than one session is open. Every index read is in range.
\<close>

definition overlaps :: "string list \<Rightarrow> string list" where
  "overlaps act =
     (if length act > 1
      then concat (map (\<lambda>j. map (\<lambda>k. act ! j @ ''+'' @ act ! k) [j + 1 ..< length act])
                       [0 ..< length act])
      else [])"

text \<open>\<^verbatim>\<open>sep.join(xs)\<close>\<close>

fun join :: "string \<Rightarrow> string list \<Rightarrow> string" where
  "join sep [] = []"
| "join sep [x] = x"
| "join sep (x # y # ys) = x @ sep @ join sep (y # ys)"

text \<open>
  The part of \<^verbatim>\<open>update_market_session\<close> after the conversion to UTC: the text written to
  \<^verbatim>\<open>market_session_var\<close>.
\<close>

definition session_str :: "dt_time \<Rightarrow> string" where
  "session_str utc_time =
     (let act = active_sessions MARKET_SESSIONS_UTC utc_time;
          ovl = overlaps act
      in if ovl \<noteq> [] then join '' / '' ovl
         else if act \<noteq> [] then join '' / '' act
         else ''Closed'')"

text \<open>
  The specification's description of the classifier, written from its words: the table, the
  wraparound test, every pair of open sessions (earlier entry first), and the three-way
  report.
\<close>

definition spec_session_table :: "(string \<times> dt_time \<times> dt_time) list" where
  "spec_session_table =
     [(''Sydney'', dt_time 21 0, dt_time 6 0), (''Tokyo'', dt_time 0 0, dt_time 9 0),
      (''London'', dt_time 8 0, dt_time 17 0), (''New York'', dt_time 13 0, dt_time 22 0)]"

definition spec_open_sessions :: "dt_time \<Rightarrow> string list" where
  "spec_open_sessions t =
     map fst (filter (\<lambda>(name, start, stop).
                if time_lt start stop then time_le start t \<and> time_lt t stop
                else time_le start t \<or> time_lt t stop) spec_session_table)"

fun spec_pairs :: "string list \<Rightarrow> string list" where
  "spec_pairs [] = []"
| "spec_pairs (a # rest) = map (\<lambda>b. a @ ''+'' @ b) rest @ spec_pairs rest"

definition spec_session_label :: "dt_time \<Rightarrow> string" where
  "spec_session_label t =
     (let act = spec_open_sessions t
      in if length act > 1 then join '' / '' (spec_pairs act)
         else if length act = 1 then hd act
         else ''Closed'')"

subsection \<open>Constants, rounding and the built-in functions the source calls\<close>

definition PIP_VALUE_XAUUSD :: real where
  "PIP_VALUE_XAUUSD = 1 / 10"

definition USD_PER_PIP_PER_LOT :: real where
  "USD_PER_PIP_PER_LOT = 10"

text \<open>
  Python's \<^verbatim>\<open>round\<close> rounds to the nearest value and an exact tie to the even neighbour.
  \<open>round_half_even\<close> is \<^verbatim>\<open>round(x)\<close>, which gives an integer; the statistics bar applies it to
  a quotient of two counts, where a tie is a float and is met exactly.
\<close>

definition round_half_even :: "real \<Rightarrow> int" where
  "round_half_even y =
     (let f = \<lfloor>y\<rfloor>; d = y - of_int f
      in if d < 1 / 2 then f
         else if 1 / 2 < d then f + 1
         else if even f then f else f + 1)"

text \<open>
  \<^verbatim>\<open>round(x, n)\<close> keeps \<open>n\<close> decimals. The handlers of the entry form apply it to a float that
  they have computed from decimal inputs. The model knows that float only as the real
  number it stands for; at a decimal tie such as 2297.475 the float lies slightly to one
  side of the tie, and the neighbour that \<^verbatim>\<open>round\<close> returns depends on the side. The handlers
  therefore take the rounding as a parameter \<open>rnd\<close>, and the properties assume of it only
  what holds on either side: \<open>rnd x n\<close> has \<open>n\<close> decimals and no value with \<open>n\<close> decimals is
  nearer to \<open>x\<close>. \<open>py_round\<close> is the instance that resolves a tie to the even neighbour; the
  handlers can be run on it, and away from ties every such rounding returns the same value.
\<close>

definition rounds_to_nearest :: "(real \<Rightarrow> nat \<Rightarrow> real) \<Rightarrow> bool" where
  "rounds_to_nearest rnd =
     (\<forall>x n. (\<exists>k::int. rnd x n = of_int k / 10 ^ n) \<and> \<bar>rnd x n - x\<bar> \<le> 1 / (2 * 10 ^ n))"


datatype py_error = TypeError | ValueError | TclError

text \<open>
  The built-in \<^verbatim>\<open>float(s)\<close> on a string, \<^verbatim>\<open>str.strip\<close> and the clock are not code of this
  program. The functions below that call them take them as a parameter:
  \<open>float_of :: string \<Rightarrow> real option\<close> with \<open>None\<close> for the \<^verbatim>\<open>ValueError\<close> that \<^verbatim>\<open>float\<close> raises,
  \<open>strip :: string \<Rightarrow> string\<close>, and the timestamp text \<open>now\<close>. The next definitions are
  concrete instances on which the functions can be run: \<open>float_decimal\<close> reads a plain
  decimal literal (an optional sign, digits, an optional point and digits), which Python's
  \<^verbatim>\<open>float\<close> reads as the same number, and \<open>strip_ascii\<close> removes leading and trailing ASCII
  white space.
\<close>

definition digit_of :: "char \<Rightarrow> nat option" where
  "digit_of = map_of [(CHR ''0'', 0), (CHR ''1'', 1), (CHR ''2'', 2), (CHR ''3'', 3), (CHR ''4'', 4),
                      (CHR ''5'', 5), (CHR ''6'', 6), (CHR ''7'', 7), (CHR ''8'', 8), (CHR ''9'', 9)]"

fun digits_value :: "nat \<Rightarrow> string \<Rightarrow> nat option" where
  "digits_value acc [] = Some acc"
| "digits_value acc (c # cs) =
     (case digit_of c of None \<Rightarrow> None | Some d \<Rightarrow> digits_value (10 * acc + d) cs)"

definition unsigned_decimal :: "string \<Rightarrow> real option" where
  "unsigned_decimal s =
     (let ip = takeWhile (\<lambda>c. c \<noteq> CHR ''.'') s;
          rest = dropWhile (\<lambda>c. c \<noteq> CHR ''.'') s;
          fp = (if rest = [] then [] else tl rest)
      in if ip = [] \<and> fp = [] then None
         else case (digits_value 0 ip, digits_value 0 fp) of
                (Some i, Some f) \<Rightarrow> Some (real i + real f / 10 ^ length fp)
              | _ \<Rightarrow> None)"

definition float_decimal :: "string \<Rightarrow> real option" where
  "float_decimal s =
     (case s of
        [] \<Rightarrow> None
      | c # cs \<Rightarrow>
          if c = CHR ''-'' then map_option uminus (unsigned_decimal cs)
          else if c = CHR ''+'' then unsigned_decimal cs
          else unsigned_decimal s)"

definition ascii_space :: "char \<Rightarrow> bool" where
  "ascii_space c = (c \<in> set [CHR '' '', CHR 0x09, CHR 0x0A, CHR 0x0B, CHR 0x0C, CHR 0x0D,
                             CHR 0x1C, CHR 0x1D, CHR 0x1E, CHR 0x1F])"

definition strip_ascii :: "string \<Rightarrow> string" where
  "strip_ascii s = rev (dropWhile ascii_space (rev (dropWhile ascii_space s)))"

text \<open>\<^verbatim>\<open>str.lower\<close> on ASCII text: the letters A to Z move to a to z.\<close>

definition lower_char :: "char \<Rightarrow> char" where
  "lower_char c =
     (if CHR ''A'' \<le> c \<and> c \<le> CHR ''Z'' then char_of (of_char c + (32 :: nat)) else c)"

definition py_lower :: "string \<Rightarrow> string" where
  "py_lower s = map lower_char s"


subsection \<open>The trade record\<close>

text \<open>
  A value read from the journal file by \<^verbatim>\<open>json.load\<close>. A number of the file is a Python
  \<^verbatim>\<open>int\<close> or \<^verbatim>\<open>float\<close>; both are \<open>JNum\<close> here.
\<close>

datatype jv = JNull | JBool bool | JNum real | JStr string
  | JArr "jv list" | JObj "(string \<times> jv) list"

text \<open>
  A partial close is a dictionary. New ones are written by \<^verbatim>\<open>add_partial_close_entry\<close> with
  the keys \<^verbatim>\<open>timestamp\<close>, \<^verbatim>\<open>amount\<close>, \<^verbatim>\<open>price\<close>, \<^verbatim>\<open>pips\<close>, \<^verbatim>\<open>reason_for_close\<close> and \<^verbatim>\<open>pnl\<close>;
  the ones of an older journal file may lack keys, which is why the source reads them with
  \<^verbatim>\<open>pc.get(key, default)\<close>.
\<close>

type_synonym pdict = "string \<rightharpoonup> jv"

text \<open>
  The operand of an addition: a number, or a Boolean (which Python counts as 1 or 0);
  adding anything else to a number raises \<^verbatim>\<open>TypeError\<close>.
\<close>

fun num_of :: "jv \<Rightarrow> py_error + real" where
  "num_of (JNum r) = Inr r"
| "num_of (JBool b) = Inr (if b then 1 else 0)"
| "num_of _ = Inl TypeError"

text \<open>\<^verbatim>\<open>pc.get(key, default)\<close> used as a number.\<close>

definition get_num :: "pdict \<Rightarrow> string \<Rightarrow> real \<Rightarrow> py_error + real" where
  "get_num pc key dflt = (case pc key of None \<Rightarrow> Inr dflt | Some v \<Rightarrow> num_of v)"

text \<open>
  \<^verbatim>\<open>trade.info\<close> and \<^verbatim>\<open>trade.review\<close> as \<^verbatim>\<open>add_trade\<close> and \<^verbatim>\<open>close_trade_update_balance\<close>
  write them: every key present, the numbers of \<^verbatim>\<open>info\<close> floats, the entries of \<^verbatim>\<open>review\<close>
  the texts of the review form (the key \<^verbatim>\<open>notes\<close> is the field \<open>review_notes\<close>). Of
  \<^verbatim>\<open>info\<close> only the keys that the functions below read are kept.
\<close>

record info =
  trade_type :: string
  entry_price :: real
  lot_size :: real
  account_balance :: real

record review =
  outcome :: string
  price :: string
  review_notes :: string
  exit_time :: string
  max_drawdown_pips :: string

record trade =
  symbol :: string
  timeframe :: string
  info :: info
  tf_screenshots :: "string \<rightharpoonup> (string option \<times> string option)"
  review :: review
  partial_closes :: "pdict list"
  sl_to_be :: bool


subsection \<open>The entry form: stop-loss and take-profit fields\<close>











subsection \<open>Partial closes and the closing of a trade\<close>

text \<open>
  \<^verbatim>\<open>sum(pc.get(key, 0) for pc in trade.partial_closes)\<close>, and the loops
  \<^verbatim>\<open>for pc in trade.partial_closes: total += pc.get(key, 0.0)\<close>, from the start value \<open>acc\<close>.
\<close>

fun sum_get :: "string \<Rightarrow> real \<Rightarrow> pdict list \<Rightarrow> py_error + real" where
  "sum_get key acc [] = Inr acc"
| "sum_get key acc (pc # pcs) =
     (case get_num pc key 0 of
        Inl e \<Rightarrow> Inl e
      | Inr x \<Rightarrow> sum_get key (acc + x) pcs)"

text \<open>The signed distance from the entry to the close price, in pips.\<close>

definition pips_moved :: "string \<Rightarrow> real \<Rightarrow> real \<Rightarrow> real" where
  "pips_moved tt entry close_price =
     (if tt = ''Buy'' then (close_price - entry) / PIP_VALUE_XAUUSD
      else (entry - close_price) / PIP_VALUE_XAUUSD)"

text \<open>
  The variables of the partial-close row of the review popup, and the dialog that
  \<^verbatim>\<open>add_partial_close_entry\<close> ends with.
\<close>

record partial_form =
  partial_amount_var :: "real option"
  partial_price_var :: "real option"
  partial_pips_var :: "real option"
  partial_reason_var :: string

datatype partial_dialog =
    Amount_Or_Price_Invalid   \<comment> \<open>warning: amount must be positive, price/pips not zero\<close>
  | Exceeds_Remaining         \<comment> \<open>warning: partial amount exceeds remaining lot size\<close>
  | Reason_Missing            \<comment> \<open>warning: please select a reason\<close>
  | Partial_Close_Added       \<comment> \<open>info: partial close recorded successfully\<close>
  | Error_Occurred            \<comment> \<open>error: the \<^verbatim>\<open>except Exception\<close> branch\<close>

text \<open>
  \<^verbatim>\<open>add_partial_close_entry\<close>, up to the append. The calls after the append redraw the two
  tables and the statistics and write the journal file; they do not change the trade.
  \<open>original_lot_size\<close> of the source is \<^verbatim>\<open>info.get("lot_size", 0.0)\<close>. A \<^verbatim>\<open>TclError\<close> of a
  variable and a \<^verbatim>\<open>TypeError\<close> of the sum are caught by \<^verbatim>\<open>except Exception\<close>.
\<close>

definition add_partial_close_entry ::
  "(string \<Rightarrow> string) \<Rightarrow> string \<Rightarrow> partial_form \<Rightarrow> trade \<Rightarrow> partial_dialog \<times> trade" where
  "add_partial_close_entry strip now pf t =
     (case (partial_amount_var pf, partial_price_var pf, partial_pips_var pf) of
        (Some amount, Some px, Some pips) \<Rightarrow>
          (let reason_for_close = strip (partial_reason_var pf)
           in if amount \<le> 0 \<or> (px = 0 \<and> pips = 0) then (Amount_Or_Price_Invalid, t)
              else (case sum_get ''amount'' 0 (partial_closes t) of
                      Inl e \<Rightarrow> (Error_Occurred, t)
                    | Inr closed_lots \<Rightarrow>
                        (let current_remaining = lot_size (info t) - closed_lots
                         in if amount > current_remaining + 1 / 10000
                            then (Exceeds_Remaining, t)
                            else if reason_for_close = [] then (Reason_Missing, t)
                            else
                              (let partial_pnl = pips * amount * USD_PER_PIP_PER_LOT;
                                   new_partial =
                                     Map.empty(''timestamp'' \<mapsto> JStr now,
                                       ''amount'' \<mapsto> JNum amount,
                                       ''price'' \<mapsto> JNum px,
                                       ''pips'' \<mapsto> JNum pips,
                                       ''reason_for_close'' \<mapsto> JStr reason_for_close,
                                       ''pnl'' \<mapsto> JNum partial_pnl)
                               in (Partial_Close_Added,
                                   t\<lparr>partial_closes := partial_closes t @ [new_partial]\<rparr>)))))
      | _ \<Rightarrow> (Error_Occurred, t))"

text \<open>The variables of the final-review part of the popup.\<close>

record review_form =
  outcome_var :: string
  close_price_var :: string
  notes_text :: string
  exit_time_var :: string
  max_drawdown_pips_var :: string
  sl_to_be_var :: bool

datatype close_signal =
    Closed_Silently          \<comment> \<open>no dialog\<close>
  | Calculation_Warning      \<comment> \<open>\<^verbatim>\<open>except ValueError\<close>: the close price is not a number\<close>
  | Calculation_Error        \<comment> \<open>\<^verbatim>\<open>except Exception\<close>\<close>
  | Raised py_error          \<comment> \<open>an exception of the first loop leaves the handler\<close>

text \<open>
  \<^verbatim>\<open>close_trade_update_balance\<close>: the trade after the call, the account balance after the
  call, and how the call ended. The loop over the \<^verbatim>\<open>pnl\<close> values is outside the \<^verbatim>\<open>try\<close>; when it
  raises, the review has been written and the balance has not been touched.
\<close>

definition close_trade_update_balance ::
  "(string \<Rightarrow> string) \<Rightarrow> (string \<Rightarrow> real option) \<Rightarrow> review_form \<Rightarrow> trade \<Rightarrow> real
     \<Rightarrow> close_signal \<times> trade \<times> real" where
  "close_trade_update_balance strip float_of form t balance =
     (let t1 = t\<lparr>review := \<lparr>outcome = outcome_var form,
                             price = close_price_var form,
                             review_notes = strip (notes_text form),
                             exit_time = exit_time_var form,
                             max_drawdown_pips = max_drawdown_pips_var form\<rparr>,
                  sl_to_be := sl_to_be_var form\<rparr>
      in case sum_get ''pnl'' 0 (partial_closes t1) of
           Inl e \<Rightarrow> (Raised e, t1, balance)
         | Inr partial_pnl \<Rightarrow>
             let (signal, final_pnl) =
               (case float_of (price (review t1)) of
                  None \<Rightarrow> (Calculation_Warning, partial_pnl)
                | Some close_price \<Rightarrow>
                    (case sum_get ''amount'' 0 (partial_closes t1) of
                       Inl e \<Rightarrow> (Calculation_Error, partial_pnl)
                     | Inr closed_lots \<Rightarrow>
                         let remaining_lot_size = lot_size (info t1) - closed_lots
                         in if remaining_lot_size > 0
                            then (Closed_Silently,
                                  partial_pnl
                                  + pips_moved (trade_type (info t1)) (entry_price (info t1))
                                      close_price
                                    * remaining_lot_size * USD_PER_PIP_PER_LOT)
                            else (Closed_Silently, partial_pnl)))
             in (signal, t1, balance + final_pnl))"

subsection \<open>The review table and the statistics bar\<close>

text \<open>The first loop of \<^verbatim>\<open>refresh_trades_tree\<close> for one trade: it adds up \<^verbatim>\<open>pnl\<close> and \<^verbatim>\<open>pips\<close>.\<close>

fun add_pnl_pips :: "real \<Rightarrow> real \<Rightarrow> pdict list \<Rightarrow> py_error + (real \<times> real)" where
  "add_pnl_pips pnl pips [] = Inr (pnl, pips)"
| "add_pnl_pips pnl pips (pc # pcs) =
     (case get_num pc ''pnl'' 0 of
        Inl e \<Rightarrow> Inl e
      | Inr x \<Rightarrow>
          (case get_num pc ''pips'' 0 of
             Inl e \<Rightarrow> Inl e
           | Inr y \<Rightarrow> add_pnl_pips (pnl + x) (pips + y) pcs))"

definition terminal_outcomes :: "string list" where
  "terminal_outcomes = [''Take Profit Hit'', ''Stoploss Hit'', ''Breakeven'', ''Other'']"

record tree_row =
  total_pnl_for_display :: real
  total_pips_for_display :: real
  win_loss_status :: string

text \<open>
  The figures of one row of \<^verbatim>\<open>refresh_trades_tree\<close>, before they are formatted as text. Inside
  the \<^verbatim>\<open>try\<close>, a close price that is not a number (\<^verbatim>\<open>ValueError\<close>) and any other exception are
  passed over, which leaves the status and the totals as they were. The first loop is
  outside the \<^verbatim>\<open>try\<close>.
\<close>

definition trade_row :: "(string \<Rightarrow> real option) \<Rightarrow> trade \<Rightarrow> py_error + tree_row" where
  "trade_row float_of t =
     (case add_pnl_pips 0 0 (partial_closes t) of
        Inl e \<Rightarrow> Inl e
      | Inr (pnl, pips) \<Rightarrow>
          Inr (if outcome (review t) \<in> set terminal_outcomes
               then (case float_of (price (review t)) of
                       None \<Rightarrow>
                         \<lparr>total_pnl_for_display = pnl, total_pips_for_display = pips,
                          win_loss_status = ''Open''\<rparr>
                     | Some close_price \<Rightarrow>
                         (case sum_get ''amount'' 0 (partial_closes t) of
                            Inl e \<Rightarrow>
                              \<lparr>total_pnl_for_display = pnl, total_pips_for_display = pips,
                               win_loss_status = ''Open''\<rparr>
                          | Inr closed_lots \<Rightarrow>
                              let remaining_lot_size = lot_size (info t) - closed_lots;
                                  moved = pips_moved (trade_type (info t)) (entry_price (info t))
                                            close_price;
                                  pips' = (if remaining_lot_size > 0 then pips + moved else pips);
                                  pnl' = (if remaining_lot_size > 0
                                          then pnl + moved * remaining_lot_size
                                                     * USD_PER_PIP_PER_LOT
                                          else pnl)
                              in \<lparr>total_pnl_for_display = pnl', total_pips_for_display = pips',
                                  win_loss_status =
                                    (if pnl' > 0 then ''Win''
                                     else if pnl' < 0 then ''Loss''
                                     else ''Breakeven'')\<rparr>))
               else \<lparr>total_pnl_for_display = pnl, total_pips_for_display = pips,
                     win_loss_status = ''Open''\<rparr>))"

text \<open>
  The loop of \<^verbatim>\<open>update_stats_bar\<close> over the trades. Here only \<^verbatim>\<open>ValueError\<close> is caught, so a
  \<^verbatim>\<open>TypeError\<close> of either sum leaves the handler.
\<close>

fun total_realized_pnl :: "(string \<Rightarrow> real option) \<Rightarrow> real \<Rightarrow> trade list \<Rightarrow> py_error + real" where
  "total_realized_pnl float_of acc [] = Inr acc"
| "total_realized_pnl float_of acc (t # ts) =
     (case sum_get ''pnl'' acc (partial_closes t) of
        Inl e \<Rightarrow> Inl e
      | Inr acc1 \<Rightarrow>
          if outcome (review t) \<in> set terminal_outcomes
          then (case float_of (price (review t)) of
                  None \<Rightarrow> total_realized_pnl float_of acc1 ts
                | Some close_price \<Rightarrow>
                    (case sum_get ''amount'' 0 (partial_closes t) of
                       Inl e \<Rightarrow> Inl e
                     | Inr closed_lots \<Rightarrow>
                         let remaining_lot_size = lot_size (info t) - closed_lots
                         in if remaining_lot_size > 0
                            then total_realized_pnl float_of
                                   (acc1 + pips_moved (trade_type (info t)) (entry_price (info t))
                                             close_price
                                           * remaining_lot_size * USD_PER_PIP_PER_LOT) ts
                            else total_realized_pnl float_of acc1 ts))
          else total_realized_pnl float_of acc1 ts)"

record stats =
  total :: nat
  wins :: nat
  losses :: nat
  wr :: int
  realized :: real

text \<open>\<^verbatim>\<open>update_stats_bar\<close>: the figures that are formatted into the statistics line.\<close>

definition update_stats_bar :: "(string \<Rightarrow> real option) \<Rightarrow> trade list \<Rightarrow> py_error + stats" where
  "update_stats_bar float_of trades =
     (case total_realized_pnl float_of 0 trades of
        Inl e \<Rightarrow> Inl e
      | Inr pnl \<Rightarrow>
          let n = length trades;
              w = length (filter (\<lambda>t. py_lower (outcome (review t)) = ''take profit hit'') trades);
              l = length (filter (\<lambda>t. py_lower (outcome (review t)) = ''stoploss hit'') trades)
          in Inr \<lparr>total = n, wins = w, losses = l,
                  wr = (if n > 0 then round_half_even (100 * real w / real n) else 0),
                  realized = pnl\<rparr>)"


subsection \<open>The playbook lists\<close>









subsection \<open>Loading: the partial closes in \<^verbatim>\<open>Trade.from_dict\<close>\<close>

text \<open>\<^verbatim>\<open>d.setdefault(key, value)\<close>, used as a statement.\<close>

definition setdefault :: "pdict \<Rightarrow> string \<Rightarrow> jv \<Rightarrow> pdict" where
  "setdefault d key v = (if d key = None then d(key \<mapsto> v) else d)"

text \<open>The body of the loop over \<^verbatim>\<open>partial_closes_data\<close>, and the loop.\<close>

definition normalize_partial_close :: "pdict \<Rightarrow> pdict" where
  "normalize_partial_close pc =
     (let pc1 = setdefault pc ''pips'' (JNum 0);
          pc2 = (if pc1 ''reason_for_close'' = None
                 then (let pc' = (if pc1 ''notes'' \<noteq> None \<and> pc1 ''notes'' \<noteq> Some JNull
                                  then pc1(''reason_for_close'' := pc1 ''notes'')
                                  else pc1(''reason_for_close'' \<mapsto> JStr ''''))
                       in pc'(''notes'' := None))
                 else pc1)
      in setdefault pc2 ''pnl'' (JNum 0))"

definition from_dict_partial_closes :: "pdict list \<Rightarrow> pdict list" where
  "from_dict_partial_closes partial_closes_data = map normalize_partial_close partial_closes_data"


subsection \<open>Terms in which the properties are stated\<close>

text \<open>
  The sum of a key over the partial closes of a trade, said without the code's reader: a
  key is numeric in a partial close when it is absent or holds a number or a Boolean, its
  value is then 0, the number, or 1 or 0, and \<open>field_total\<close> is the sum of these values.
\<close>

fun numeric_value :: "jv option \<Rightarrow> real option" where
  "numeric_value None = Some 0"
| "numeric_value (Some (JNum r)) = Some r"
| "numeric_value (Some (JBool b)) = Some (if b then 1 else 0)"
| "numeric_value (Some other) = None"

definition numeric_field :: "string \<Rightarrow> pdict \<Rightarrow> bool" where
  "numeric_field key pc = (numeric_value (pc key) \<noteq> None)"

definition field_value :: "string \<Rightarrow> pdict \<Rightarrow> real" where
  "field_value key pc = (case numeric_value (pc key) of Some x \<Rightarrow> x | None \<Rightarrow> 0)"

definition field_total :: "string \<Rightarrow> pdict list \<Rightarrow> real" where
  "field_total key pcs = sum_list (map (field_value key) pcs)"

text \<open>The values that the outcome box of the review form offers.\<close>

definition outcome_options :: "string list" where
  "outcome_options = ['''', ''Take Profit Hit'', ''Stoploss Hit'', ''Breakeven'', ''Other'']"

text \<open>
  A trade to run the functions on: the example of the specification, a Buy of one lot of
  XAUUSD at 2300.0 with a balance of 10000, not yet reviewed.
\<close>

definition demo_trade :: trade where
  "demo_trade =
     \<lparr>symbol = ''XAUUSD'', timeframe = ''1h'',
      info = \<lparr>trade_type = ''Buy'', entry_price = 2300, lot_size = 1, account_balance = 10000\<rparr>,
      tf_screenshots = [''D1'' \<mapsto> (None, None), ''H4'' \<mapsto> (None, None), ''H1'' \<mapsto> (None, None)],
      review = \<lparr>outcome = '''', price = '''', review_notes = '''', exit_time = '''',
                max_drawdown_pips = ''''\<rparr>,
      partial_closes = [],
      sl_to_be = False\<rparr>"

definition demo_review :: "string \<Rightarrow> string \<Rightarrow> review" where
  "demo_review oc px =
     \<lparr>outcome = oc, price = px, review_notes = '''', exit_time = '''', max_drawdown_pips = ''''\<rparr>"

definition demo_partial :: "real \<Rightarrow> real \<Rightarrow> real \<Rightarrow> pdict" where
  "demo_partial amount pips pnl =
     Map.empty(''timestamp'' \<mapsto> JStr ''2024-05-01 10:00:00'',
       ''amount'' \<mapsto> JNum amount,
       ''price'' \<mapsto> JNum (2300 + pips / 10),
       ''pips'' \<mapsto> JNum pips,
       ''reason_for_close'' \<mapsto> JStr ''Reached Partial TP 1'',
       ''pnl'' \<mapsto> JNum pnl)"


section \<open>Properties\<close>

subsection \<open>Market sessions\<close>

lemma hour_dt_time: "hour (dt_time h m) = h"
  by (simp add: dt_time_def)

lemma time_le_dt: "time_le (dt_time h 0) t = (h \<le> hour t)"
  by (cases t) (auto simp: time_le_def dt_time_def)

lemma time_lt_dt: "time_lt t (dt_time h 0) = (hour t < h)"
  by (cases t) (auto simp: dt_time_def)

text \<open>Every boundary of the table is a whole hour, so only the hour of the time matters.\<close>

lemma active_hours:
  "active_sessions MARKET_SESSIONS_UTC t =
     (if 21 \<le> hour t \<or> hour t < 6 then [''Sydney''] else []) @
     (if hour t < 9 then [''Tokyo''] else []) @
     (if 8 \<le> hour t \<and> hour t < 17 then [''London''] else []) @
     (if 13 \<le> hour t \<and> hour t < 22 then [''New York''] else [])"
  by (simp add: MARKET_SESSIONS_UTC_def is_open_def time_le_dt time_lt_dt hour_dt_time)

lemma active_is_filter:
  "active_sessions tbl t =
     map fst (filter (\<lambda>(name, start, stop). is_open start stop t) tbl)"
  by (induction tbl t rule: active_sessions.induct) simp_all

lemma active_spec: "active_sessions MARKET_SESSIONS_UTC t = spec_open_sessions t"
  by (simp add: active_is_filter spec_open_sessions_def spec_session_table_def
      MARKET_SESSIONS_UTC_def is_open_def)

text \<open>The two index loops enumerate the pairs of a list, earlier element first.\<close>

lemma nested_pairs:
  "concat (map (\<lambda>j. map (\<lambda>k. xs ! j @ ''+'' @ xs ! k) [j + 1 ..< length xs])
               [0 ..< length xs]) = spec_pairs xs"
proof (induction xs)
  case Nil
  show ?case by simp
next
  case (Cons x xs)
  have outer: "[0 ..< length (x # xs)] = 0 # map Suc [0 ..< length xs]"
    by (simp add: upt_conv_Cons map_Suc_upt del: upt_Suc)
  have first: "map (\<lambda>k. (x # xs) ! 0 @ ''+'' @ (x # xs) ! k) [0 + 1 ..< length (x # xs)]
      = map (\<lambda>y. x @ ''+'' @ y) xs"
  proof -
    have "[0 + 1 ..< length (x # xs)] = map Suc [0 ..< length xs]"
      by (simp add: map_Suc_upt del: upt_Suc)
    then have "map (\<lambda>k. (x # xs) ! 0 @ ''+'' @ (x # xs) ! k) [0 + 1 ..< length (x # xs)]
       = map (\<lambda>y. x @ ''+'' @ y) (map (\<lambda>k. xs ! k) [0 ..< length xs])"
      by (simp add: comp_def del: upt_Suc)
    then show ?thesis by (simp add: map_nth del: upt_Suc)
  qed
  have later: "map (\<lambda>k. (x # xs) ! Suc j @ ''+'' @ (x # xs) ! k) [Suc j + 1 ..< length (x # xs)]
        = map (\<lambda>k. xs ! j @ ''+'' @ xs ! k) [j + 1 ..< length xs]" for j
  proof -
    have "[Suc j + 1 ..< length (x # xs)] = map Suc [j + 1 ..< length xs]"
      by (simp add: map_Suc_upt del: upt_Suc)
    then show ?thesis by (simp add: comp_def del: upt_Suc)
  qed
  show ?case
    unfolding outer using first later Cons.IH by (simp add: comp_def del: upt_Suc)
qed

lemma overlaps_pairs: "overlaps act = (if length act > 1 then spec_pairs act else [])"
  unfolding overlaps_def nested_pairs by simp

lemma spec_pairs_empty: "(spec_pairs xs = []) = (length xs \<le> 1)"
  by (induction xs) (auto simp: Suc_le_eq)

lemma join_single: "length xs = 1 \<Longrightarrow> join sep xs = hd xs"
  by (cases xs) auto

lemma session_str_spec: "session_str t = spec_session_label t"
proof -
  let ?act = "spec_open_sessions t"
  consider "length ?act > 1" | "length ?act = 1" | "?act = []"
    by (cases ?act) auto
  then show ?thesis
  proof cases
    case 1
    then have "spec_pairs ?act \<noteq> []" by (simp add: spec_pairs_empty)
    with 1 show ?thesis
      by (simp add: session_str_def spec_session_label_def active_spec overlaps_pairs)
  next
    case 2
    then have "?act \<noteq> []" by auto
    with 2 show ?thesis
      by (simp add: session_str_def spec_session_label_def active_spec overlaps_pairs
          join_single)
  next
    case 3
    then show ?thesis
      by (simp add: session_str_def spec_session_label_def active_spec overlaps_pairs)
  qed
qed

text \<open>
  C5. For every UTC time of day the text computed by \<^verbatim>\<open>update_market_session\<close> is the one
  the specification describes: the sessions of the fixed table that pass the wraparound
  test are collected; more than one open session gives every pair \<open>A+B\<close> joined by \<open>" / "\<close>,
  exactly one gives its name, none gives \<open>Closed\<close>. At 09:30 UTC the text is \<open>London\<close>, at
  13:30 UTC it is \<open>London+New York\<close>.
\<close>

theorem session_classifier_refines_spec:
  "session_str t = spec_session_label t
   \<and> session_str (dt_time 9 30) = ''London''
   \<and> session_str (dt_time 13 30) = ''London+New York''"
proof -
  have "session_str (dt_time 9 30) = ''London''"
    by (simp add: session_str_def active_hours overlaps_def hour_dt_time)
  moreover have "session_str (dt_time 13 30) = ''London+New York''"
    by (simp add: session_str_def active_hours overlaps_def hour_dt_time)
  ultimately show ?thesis by (simp add: session_str_spec)
qed

lemma session_str_cases:
  "session_str t =
     (case active_sessions MARKET_SESSIONS_UTC t of
        [] \<Rightarrow> ''Closed''
      | [a] \<Rightarrow> a
      | a # b # rest \<Rightarrow> join '' / '' (spec_pairs (a # b # rest)))"
  by (simp add: session_str_def overlaps_pairs split: list.splits)

text \<open>
  C10. At every UTC time of day at most two of the four sessions are open, the overlap
  list has at most one entry, and the text is \<open>Closed\<close>, one session name, or one pair.
\<close>

theorem at_most_two_sessions_open:
  "length (active_sessions MARKET_SESSIONS_UTC t) \<le> 2
   \<and> length (overlaps (active_sessions MARKET_SESSIONS_UTC t)) \<le> 1
   \<and> session_str t \<in> {''Closed'', ''Sydney'', ''Tokyo'', ''London'', ''New York'',
        ''Sydney+Tokyo'', ''Tokyo+London'', ''London+New York'', ''Sydney+New York''}"
proof -
  have n: "length (active_sessions MARKET_SESSIONS_UTC t) \<le> 2"
    by (simp add: active_hours)
  have o: "length (overlaps (active_sessions MARKET_SESSIONS_UTC t)) \<le> 1"
    by (simp add: active_hours overlaps_pairs)
  have s: "session_str t \<in> {''Closed'', ''Sydney'', ''Tokyo'', ''London'', ''New York'',
        ''Sydney+Tokyo'', ''Tokyo+London'', ''London+New York'', ''Sydney+New York''}"
    by (simp add: session_str_cases active_hours)
  from n o s show ?thesis by simp
qed

subsection \<open>Loading a journal\<close>

lemma normalize_pips:
  "normalize_partial_close pc ''pips'' = (if pc ''pips'' = None then Some (JNum 0) else pc ''pips'')"
  by (auto simp: normalize_partial_close_def setdefault_def Let_def)

lemma normalize_pnl:
  "normalize_partial_close pc ''pnl'' = (if pc ''pnl'' = None then Some (JNum 0) else pc ''pnl'')"
  by (auto simp: normalize_partial_close_def setdefault_def Let_def)

lemma normalize_reason:
  "normalize_partial_close pc ''reason_for_close'' =
     (if pc ''reason_for_close'' \<noteq> None then pc ''reason_for_close''
      else if pc ''notes'' \<noteq> None \<and> pc ''notes'' \<noteq> Some JNull then pc ''notes''
      else Some (JStr ''''))"
  by (auto simp: normalize_partial_close_def setdefault_def Let_def)

lemma normalize_notes:
  "normalize_partial_close pc ''notes'' =
     (if pc ''reason_for_close'' = None then None else pc ''notes'')"
  by (auto simp: normalize_partial_close_def setdefault_def Let_def)

lemma normalize_other:
  "k \<notin> {''pips'', ''pnl'', ''reason_for_close'', ''notes''} \<Longrightarrow>
     normalize_partial_close pc k = pc k"
  by (auto simp: normalize_partial_close_def setdefault_def Let_def)

text \<open>
  C7. For every partial-close record of a journal that is loaded, with \<open>old\<close> the record as
  read and \<open>new\<close> the record after \<^verbatim>\<open>from_dict\<close>: a record without \<^verbatim>\<open>reason_for_close\<close> gets the
  value of \<^verbatim>\<open>notes\<close> when that key is present and not null, and the empty string otherwise,
  and loses the key \<^verbatim>\<open>notes\<close>; a record with \<^verbatim>\<open>reason_for_close\<close> keeps both keys as they are;
  a missing \<^verbatim>\<open>pips\<close> and a missing \<^verbatim>\<open>pnl\<close> become 0.0; every other key is left alone.
\<close>

theorem from_dict_backfills_partial_close:
  assumes "i < length partial_closes_data"
  shows "length (from_dict_partial_closes partial_closes_data) = length partial_closes_data
    \<and> (from_dict_partial_closes partial_closes_data ! i) ''reason_for_close'' =
           (if (partial_closes_data ! i) ''reason_for_close'' \<noteq> None
            then (partial_closes_data ! i) ''reason_for_close''
            else if (partial_closes_data ! i) ''notes'' \<noteq> None
                    \<and> (partial_closes_data ! i) ''notes'' \<noteq> Some JNull
            then (partial_closes_data ! i) ''notes''
            else Some (JStr ''''))
    \<and> (from_dict_partial_closes partial_closes_data ! i) ''notes'' =
           (if (partial_closes_data ! i) ''reason_for_close'' = None then None
            else (partial_closes_data ! i) ''notes'')
    \<and> (from_dict_partial_closes partial_closes_data ! i) ''pips'' =
           (if (partial_closes_data ! i) ''pips'' = None then Some (JNum 0)
            else (partial_closes_data ! i) ''pips'')
    \<and> (from_dict_partial_closes partial_closes_data ! i) ''pnl'' =
           (if (partial_closes_data ! i) ''pnl'' = None then Some (JNum 0)
            else (partial_closes_data ! i) ''pnl'')
    \<and> (\<forall>k. k \<notin> {''pips'', ''pnl'', ''reason_for_close'', ''notes''} \<longrightarrow>
           (from_dict_partial_closes partial_closes_data ! i) k = (partial_closes_data ! i) k)"
  using assms
  by (simp add: from_dict_partial_closes_def normalize_pips normalize_pnl normalize_reason
      normalize_notes normalize_other)

text \<open>
  The example of the specification: a record with the legacy key \<^verbatim>\<open>notes\<close> holding \<open>abc\<close> and
  no \<^verbatim>\<open>reason_for_close\<close>.
\<close>

theorem from_dict_backfills_partial_close_witness:
  "(0::nat) < length [Map.empty(''amount'' \<mapsto> JNum (1/2), ''notes'' \<mapsto> JStr ''abc'')]
   \<and> (from_dict_partial_closes [Map.empty(''amount'' \<mapsto> JNum (1/2), ''notes'' \<mapsto> JStr ''abc'')] ! 0)
        ''reason_for_close'' = Some (JStr ''abc'')
   \<and> (from_dict_partial_closes [Map.empty(''amount'' \<mapsto> JNum (1/2), ''notes'' \<mapsto> JStr ''abc'')] ! 0)
        ''notes'' = None
   \<and> (from_dict_partial_closes [Map.empty(''amount'' \<mapsto> JNum (1/2), ''notes'' \<mapsto> JStr ''abc'')] ! 0)
        ''pips'' = Some (JNum 0)
   \<and> (from_dict_partial_closes [Map.empty(''amount'' \<mapsto> JNum (1/2), ''notes'' \<mapsto> JStr ''abc'')] ! 0)
        ''pnl'' = Some (JNum 0)
   \<and> (from_dict_partial_closes [Map.empty(''amount'' \<mapsto> JNum (1/2), ''notes'' \<mapsto> JStr ''abc'')] ! 0)
        ''amount'' = Some (JNum (1/2))"
  using from_dict_backfills_partial_close
          [of 0 "[Map.empty(''amount'' \<mapsto> JNum (1/2), ''notes'' \<mapsto> JStr ''abc'')]"]
  by simp

subsection \<open>Adding a playbook item\<close>




subsection \<open>Pips and prices\<close>




lemma nearest_near: "rounds_to_nearest rnd \<Longrightarrow> \<bar>rnd x n - x\<bar> \<le> 1 / (2 * 10 ^ n)"
  by (simp add: rounds_to_nearest_def)

lemma nearest_grid: "rounds_to_nearest rnd \<Longrightarrow> \<exists>k::int. rnd x n = of_int k / 10 ^ n"
  by (simp add: rounds_to_nearest_def)

text \<open>
  Where there is one nearest value, every rounding to a nearest value returns it: a value
  with \<open>n\<close> decimals that is nearer to \<open>x\<close> than half a unit of the last decimal.
\<close>

lemma nearest_unique:
  assumes r: "rounds_to_nearest rnd" and near: "\<bar>of_int m / 10 ^ n - x\<bar> < 1 / (2 * 10 ^ n)"
  shows "rnd x n = of_int m / 10 ^ n"
proof -
  from nearest_grid [OF r] obtain k :: int where k: "rnd x n = of_int k / 10 ^ n"
    by blast
  have pos: "(0::real) < 10 ^ n" by simp
  have half: "(1::real) / 10 ^ n = 2 * (1 / (2 * 10 ^ n))" by simp
  have kx: "\<bar>real_of_int k / 10 ^ n - x\<bar> \<le> 1 / (2 * 10 ^ n)"
    using nearest_near [OF r, of x n] by (simp add: k)
  have "\<bar>real_of_int k / 10 ^ n - real_of_int m / 10 ^ n\<bar> < 1 / 10 ^ n"
    using kx near half by linarith
  then have "\<bar>(real_of_int k - real_of_int m) / 10 ^ n\<bar> < 1 / 10 ^ n"
    by (simp add: diff_divide_distrib)
  then have "\<bar>real_of_int k - real_of_int m\<bar> < 1"
    using pos by (simp add: field_simps)
  then have "\<bar>k - m\<bar> < 1"
    by linarith
  then have "k = m" by simp
  with k show ?thesis by simp
qed























subsection \<open>Sums over partial closes\<close>

text \<open>The code's reader of a key agrees with the value of the key.\<close>

lemma get_num_value:
  "get_num pc key 0 = (case numeric_value (pc key) of Some x \<Rightarrow> Inr x | None \<Rightarrow> Inl TypeError)"
  by (cases "pc key" rule: numeric_value.cases) (simp_all add: get_num_def)

lemma get_num_numeric:
  "numeric_field key pc \<Longrightarrow> get_num pc key 0 = Inr (field_value key pc)"
  by (auto simp: get_num_value numeric_field_def field_value_def)

lemma get_num_not_numeric:
  "\<not> numeric_field key pc \<Longrightarrow> get_num pc key 0 = Inl TypeError"
  by (simp add: get_num_value numeric_field_def)

lemma sum_get_numeric:
  "list_all (numeric_field key) pcs \<Longrightarrow> sum_get key acc pcs = Inr (acc + field_total key pcs)"
  by (induction pcs arbitrary: acc) (simp_all add: field_total_def get_num_numeric)

lemma sum_get_Inr:
  "sum_get key acc pcs = Inr s \<Longrightarrow>
     list_all (numeric_field key) pcs \<and> s = acc + field_total key pcs"
proof (induction pcs arbitrary: acc)
  case Nil
  then show ?case by (simp add: field_total_def)
next
  case (Cons pc pcs)
  show ?case
  proof (cases "get_num pc key 0")
    case (Inl e)
    with Cons.prems show ?thesis by simp
  next
    case (Inr x)
    with Cons.prems have rest: "sum_get key (acc + x) pcs = Inr s" by simp
    from Inr have n: "numeric_field key pc" and v: "field_value key pc = x"
      by (auto simp: get_num_value numeric_field_def field_value_def split: option.splits)
    from Cons.IH [OF rest] n v show ?thesis
      by (simp add: field_total_def)
  qed
qed

lemma add_pnl_pips_numeric:
  "list_all (numeric_field ''pnl'') pcs \<Longrightarrow> list_all (numeric_field ''pips'') pcs \<Longrightarrow>
     add_pnl_pips a b pcs = Inr (a + field_total ''pnl'' pcs, b + field_total ''pips'' pcs)"
  by (induction pcs arbitrary: a b) (simp_all add: field_total_def get_num_numeric)

lemma field_total_append:
  "field_total key (xs @ ys) = field_total key xs + field_total key ys"
  by (simp add: field_total_def)

lemma numeric_demo_partial:
  "numeric_field ''amount'' (demo_partial a p n)"
  "numeric_field ''pnl'' (demo_partial a p n)"
  "numeric_field ''pips'' (demo_partial a p n)"
  by (simp_all add: numeric_field_def demo_partial_def)

lemma value_demo_partial:
  "field_value ''amount'' (demo_partial a p n) = a"
  "field_value ''pnl'' (demo_partial a p n) = n"
  "field_value ''pips'' (demo_partial a p n) = p"
  by (simp_all add: field_value_def demo_partial_def)

subsection \<open>Adding a partial close\<close>

lemma add_partial_rejected:
  "fst (add_partial_close_entry strip now pf t) \<noteq> Partial_Close_Added \<Longrightarrow>
     snd (add_partial_close_entry strip now pf t) = t"
  by (auto simp: add_partial_close_entry_def Let_def split: option.splits sum.splits if_splits)

lemma add_partial_accepted:
  assumes "fst (add_partial_close_entry strip now pf t) = Partial_Close_Added"
  shows "\<exists>amount px pips closed_lots.
           partial_amount_var pf = Some amount \<and> partial_price_var pf = Some px
           \<and> partial_pips_var pf = Some pips
           \<and> 0 < amount \<and> \<not> (px = 0 \<and> pips = 0) \<and> strip (partial_reason_var pf) \<noteq> []
           \<and> sum_get ''amount'' 0 (partial_closes t) = Inr closed_lots
           \<and> amount \<le> lot_size (info t) - closed_lots + 1 / 10000
           \<and> snd (add_partial_close_entry strip now pf t) =
               t\<lparr>partial_closes := partial_closes t @
                   [Map.empty(''timestamp'' \<mapsto> JStr now,
                      ''amount'' \<mapsto> JNum amount,
                      ''price'' \<mapsto> JNum px,
                      ''pips'' \<mapsto> JNum pips,
                      ''reason_for_close'' \<mapsto> JStr (strip (partial_reason_var pf)),
                      ''pnl'' \<mapsto> JNum (pips * amount * USD_PER_PIP_PER_LOT))]\<rparr>"
  using assms
  by (auto simp: add_partial_close_entry_def Let_def split: option.splits sum.splits if_splits)

lemma add_partial_exceeds:
  assumes "partial_amount_var pf = Some amount"
    and "amount > lot_size (info t) - field_total ''amount'' (partial_closes t) + 1 / 10000"
  shows "fst (add_partial_close_entry strip now pf t) \<noteq> Partial_Close_Added"
proof
  assume "fst (add_partial_close_entry strip now pf t) = Partial_Close_Added"
  from add_partial_accepted [OF this] obtain a closed_lots where
    a: "partial_amount_var pf = Some a"
    and s: "sum_get ''amount'' 0 (partial_closes t) = Inr closed_lots"
    and le: "a \<le> lot_size (info t) - closed_lots + 1 / 10000"
    by blast
  from sum_get_Inr [OF s] have "closed_lots = field_total ''amount'' (partial_closes t)"
    by simp
  with a le assms show False by simp
qed

text \<open>
  C2, as the code has it. The test that guards the insertion allows a tolerance of 0.0001 lot.
  For every trade and every content of the partial-close row: after an accepted insertion
  every \<^verbatim>\<open>amount\<close> of the trade is a number and their sum is at most the initial lot size plus
  0.0001, the new record being appended and nothing else changed; an insertion that is not
  accepted leaves the whole trade unchanged; and an insertion whose amount exceeds the
  remaining lot size by more than 0.0001 is not accepted.
\<close>

theorem partial_close_insertion_bound:
  "(fst (add_partial_close_entry strip now pf t) = Partial_Close_Added \<longrightarrow>
      list_all (numeric_field ''amount'')
        (partial_closes (snd (add_partial_close_entry strip now pf t)))
      \<and> field_total ''amount'' (partial_closes (snd (add_partial_close_entry strip now pf t)))
          \<le> lot_size (info t) + 1 / 10000
      \<and> (\<exists>new_partial. snd (add_partial_close_entry strip now pf t)
            = t\<lparr>partial_closes := partial_closes t @ [new_partial]\<rparr>))
   \<and> (fst (add_partial_close_entry strip now pf t) \<noteq> Partial_Close_Added \<longrightarrow>
      snd (add_partial_close_entry strip now pf t) = t)
   \<and> (\<forall>amount. partial_amount_var pf = Some amount
        \<and> amount > lot_size (info t) - field_total ''amount'' (partial_closes t) + 1 / 10000
        \<longrightarrow> fst (add_partial_close_entry strip now pf t) \<noteq> Partial_Close_Added
            \<and> snd (add_partial_close_entry strip now pf t) = t)"
proof (intro conjI impI allI)
  assume acc: "fst (add_partial_close_entry strip now pf t) = Partial_Close_Added"
  from add_partial_accepted [OF acc] obtain amount px pips closed_lots where
    s: "sum_get ''amount'' 0 (partial_closes t) = Inr closed_lots"
    and le: "amount \<le> lot_size (info t) - closed_lots + 1 / 10000"
    and new: "snd (add_partial_close_entry strip now pf t) =
               t\<lparr>partial_closes := partial_closes t @
                   [Map.empty(''timestamp'' \<mapsto> JStr now,
                      ''amount'' \<mapsto> JNum amount,
                      ''price'' \<mapsto> JNum px,
                      ''pips'' \<mapsto> JNum pips,
                      ''reason_for_close'' \<mapsto> JStr (strip (partial_reason_var pf)),
                      ''pnl'' \<mapsto> JNum (pips * amount * USD_PER_PIP_PER_LOT))]\<rparr>"
    by blast
  let ?np = "Map.empty(''timestamp'' \<mapsto> JStr now,
                      ''amount'' \<mapsto> JNum amount,
                      ''price'' \<mapsto> JNum px,
                      ''pips'' \<mapsto> JNum pips,
                      ''reason_for_close'' \<mapsto> JStr (strip (partial_reason_var pf)),
                      ''pnl'' \<mapsto> JNum (pips * amount * USD_PER_PIP_PER_LOT))"
  from sum_get_Inr [OF s] have old: "list_all (numeric_field ''amount'') (partial_closes t)"
    and tot: "closed_lots = field_total ''amount'' (partial_closes t)"
    by simp_all
  have npn: "numeric_field ''amount'' ?np" and npv: "field_value ''amount'' ?np = amount"
    by (simp_all add: numeric_field_def field_value_def)
  show "list_all (numeric_field ''amount'')
          (partial_closes (snd (add_partial_close_entry strip now pf t)))"
    using old npn by (simp add: new)
  have "field_total ''amount'' (partial_closes (snd (add_partial_close_entry strip now pf t)))
      = closed_lots + amount"
    using npv by (simp add: new field_total_append tot) (simp add: field_total_def)
  with le show "field_total ''amount''
          (partial_closes (snd (add_partial_close_entry strip now pf t)))
        \<le> lot_size (info t) + 1 / 10000"
    by simp
  from new show "\<exists>new_partial. snd (add_partial_close_entry strip now pf t)
            = t\<lparr>partial_closes := partial_closes t @ [new_partial]\<rparr>"
    by blast
next
  assume "fst (add_partial_close_entry strip now pf t) \<noteq> Partial_Close_Added"
  then show "snd (add_partial_close_entry strip now pf t) = t"
    by (rule add_partial_rejected)
next
  fix amount
  assume a: "partial_amount_var pf = Some amount
        \<and> amount > lot_size (info t) - field_total ''amount'' (partial_closes t) + 1 / 10000"
  then show rej: "fst (add_partial_close_entry strip now pf t) \<noteq> Partial_Close_Added"
    using add_partial_exceeds by blast
  then show "snd (add_partial_close_entry strip now pf t) = t"
    by (rule add_partial_rejected)
qed

text \<open>
  Half a lot of the one-lot example trade is closed at 100 pips: accepted, the sum is 0.5.
  On the trade with that partial close, 0.6 lot more is refused and the trade stays as it is.
\<close>

theorem partial_close_insertion_bound_witness:
  "fst (add_partial_close_entry strip_ascii ''2024-05-01 10:00:00''
          \<lparr>partial_amount_var = Some (1 / 2), partial_price_var = Some 2310,
           partial_pips_var = Some 100, partial_reason_var = ''Reached Partial TP 1''\<rparr>
          demo_trade) = Partial_Close_Added
   \<and> snd (add_partial_close_entry strip_ascii ''2024-05-01 10:00:00''
          \<lparr>partial_amount_var = Some (1 / 2), partial_price_var = Some 2310,
           partial_pips_var = Some 100, partial_reason_var = ''Reached Partial TP 1''\<rparr>
          demo_trade) = demo_trade\<lparr>partial_closes := [demo_partial (1 / 2) 100 500]\<rparr>
   \<and> field_total ''amount'' [demo_partial (1 / 2) 100 500] \<le> lot_size (info demo_trade) + 1 / 10000
   \<and> partial_amount_var
          \<lparr>partial_amount_var = Some (6 / 10), partial_price_var = Some 2310,
           partial_pips_var = Some 100, partial_reason_var = ''Reached Partial TP 2''\<rparr>
        = Some (6 / 10)
   \<and> 6 / 10 > lot_size (info (demo_trade\<lparr>partial_closes := [demo_partial (1 / 2) 100 500]\<rparr>))
        - field_total ''amount''
            (partial_closes (demo_trade\<lparr>partial_closes := [demo_partial (1 / 2) 100 500]\<rparr>))
        + 1 / 10000
   \<and> add_partial_close_entry strip_ascii ''2024-05-01 11:00:00''
          \<lparr>partial_amount_var = Some (6 / 10), partial_price_var = Some 2310,
           partial_pips_var = Some 100, partial_reason_var = ''Reached Partial TP 2''\<rparr>
          (demo_trade\<lparr>partial_closes := [demo_partial (1 / 2) 100 500]\<rparr>)
        = (Exceeds_Remaining, demo_trade\<lparr>partial_closes := [demo_partial (1 / 2) 100 500]\<rparr>)"
proof -
  have strip1: "strip_ascii ''Reached Partial TP 1'' = ''Reached Partial TP 1''"
    and strip2: "strip_ascii ''Reached Partial TP 2'' = ''Reached Partial TP 2''"
    by (simp_all add: strip_ascii_def ascii_space_def)
  have first: "add_partial_close_entry strip_ascii ''2024-05-01 10:00:00''
          \<lparr>partial_amount_var = Some (1 / 2), partial_price_var = Some 2310,
           partial_pips_var = Some 100, partial_reason_var = ''Reached Partial TP 1''\<rparr>
          demo_trade
        = (Partial_Close_Added, demo_trade\<lparr>partial_closes := [demo_partial (1 / 2) 100 500]\<rparr>)"
    by (simp add: add_partial_close_entry_def strip1 demo_trade_def demo_partial_def
        USD_PER_PIP_PER_LOT_def)
  have tot: "field_total ''amount'' [demo_partial (1 / 2) 100 500] = 1 / 2"
    by (simp add: field_total_def value_demo_partial)
  have lot: "lot_size (info demo_trade) = 1"
    by (simp add: demo_trade_def)
  have second: "add_partial_close_entry strip_ascii ''2024-05-01 11:00:00''
          \<lparr>partial_amount_var = Some (6 / 10), partial_price_var = Some 2310,
           partial_pips_var = Some 100, partial_reason_var = ''Reached Partial TP 2''\<rparr>
          (demo_trade\<lparr>partial_closes := [demo_partial (1 / 2) 100 500]\<rparr>)
        = (Exceeds_Remaining, demo_trade\<lparr>partial_closes := [demo_partial (1 / 2) 100 500]\<rparr>)"
    by (simp add: add_partial_close_entry_def strip2 lot get_num_def demo_partial_def)
  show ?thesis
    using partial_close_insertion_bound
      [of strip_ascii "''2024-05-01 10:00:00''"
          "\<lparr>partial_amount_var = Some (1 / 2), partial_price_var = Some 2310,
            partial_pips_var = Some 100, partial_reason_var = ''Reached Partial TP 1''\<rparr>"
          demo_trade]
      first second tot lot
    by simp
qed

text \<open>
  The claim as written fails inside the tolerance. On the one-lot example trade without
  partial closes, an amount of 1.00005 lot is accepted, and the sum of the amounts is then
  1.00005, more than the lot size.
\<close>

theorem partial_close_tolerance_counterexample:
  "add_partial_close_entry strip_ascii ''2024-05-01 10:00:00''
          \<lparr>partial_amount_var = Some (100005 / 100000), partial_price_var = Some 2310,
           partial_pips_var = Some 100, partial_reason_var = ''Reached Partial TP 1''\<rparr>
          demo_trade
     = (Partial_Close_Added,
        demo_trade\<lparr>partial_closes := [demo_partial (100005 / 100000) 100 (100005 / 100)]\<rparr>)
   \<and> field_total ''amount'' [demo_partial (100005 / 100000) 100 (100005 / 100)] = 100005 / 100000
   \<and> lot_size (info demo_trade) = 1
   \<and> \<not> field_total ''amount'' [demo_partial (100005 / 100000) 100 (100005 / 100)]
        \<le> lot_size (info demo_trade)"
proof -
  have strip1: "strip_ascii ''Reached Partial TP 1'' = ''Reached Partial TP 1''"
    by (simp add: strip_ascii_def ascii_space_def)
  have "add_partial_close_entry strip_ascii ''2024-05-01 10:00:00''
          \<lparr>partial_amount_var = Some (100005 / 100000), partial_price_var = Some 2310,
           partial_pips_var = Some 100, partial_reason_var = ''Reached Partial TP 1''\<rparr>
          demo_trade
     = (Partial_Close_Added,
        demo_trade\<lparr>partial_closes := [demo_partial (100005 / 100000) 100 (100005 / 100)]\<rparr>)"
    by (simp add: add_partial_close_entry_def strip1 demo_trade_def demo_partial_def
        USD_PER_PIP_PER_LOT_def)
  moreover have "field_total ''amount'' [demo_partial (100005 / 100000) 100 (100005 / 100)]
      = 100005 / 100000"
    by (simp add: field_total_def value_demo_partial)
  moreover have "lot_size (info demo_trade) = 1"
    by (simp add: demo_trade_def)
  ultimately show ?thesis by simp
qed

subsection \<open>Closing a trade\<close>

lemma float_decimal_samples:
  "float_decimal ''2310.0'' = Some 2310"
  "float_decimal ''2295.0'' = Some 2295"
  "float_decimal '''' = None"
  by (simp_all add: float_decimal_def unsigned_decimal_def digit_of_def)

lemma strip_ascii_samples:
  "strip_ascii '' target reached '' = ''target reached''"
  "strip_ascii '''' = ''''"
  by (simp_all add: strip_ascii_def ascii_space_def)

text \<open>
  C3, as the code has it. For every trade with numeric partial closes and every content of
  the review form, \<^verbatim>\<open>close_trade_update_balance\<close> writes the five review fields and \<^verbatim>\<open>sl_to_be\<close>
  from the form and leaves the rest of the trade alone. When the close price reads as a
  number, the final P&L is the sum of the \<^verbatim>\<open>pnl\<close> of the partial closes plus, when the
  remaining lot size is positive, pips moved times remaining lot size times USD per pip per
  lot, and no dialog is shown; when the close price does not read as a number, a warning is
  shown and the final P&L is the sum of the \<^verbatim>\<open>pnl\<close> of the partial closes alone. The balance
  after the call is the balance before plus the final P&L. A second call on the closed
  trade is not prevented and adds the final P&L again.
\<close>

theorem close_trade_final_pnl:
  assumes "list_all (numeric_field ''pnl'') (partial_closes t)"
    and "list_all (numeric_field ''amount'') (partial_closes t)"
  shows "(let remaining = lot_size (info t) - field_total ''amount'' (partial_closes t);
              final_pnl =
                field_total ''pnl'' (partial_closes t)
                + (case float_of (close_price_var form) of
                     None \<Rightarrow> 0
                   | Some close_price \<Rightarrow>
                       if remaining > 0
                       then (if trade_type (info t) = ''Buy''
                             then (close_price - entry_price (info t)) / PIP_VALUE_XAUUSD
                             else (entry_price (info t) - close_price) / PIP_VALUE_XAUUSD)
                            * remaining * USD_PER_PIP_PER_LOT
                       else 0);
              closed_trade =
                t\<lparr>review := \<lparr>outcome = outcome_var form, price = close_price_var form,
                              review_notes = strip (notes_text form),
                              exit_time = exit_time_var form,
                              max_drawdown_pips = max_drawdown_pips_var form\<rparr>,
                   sl_to_be := sl_to_be_var form\<rparr>
          in close_trade_update_balance strip float_of form t balance
               = (case float_of (close_price_var form) of
                    None \<Rightarrow> Calculation_Warning | Some close_price \<Rightarrow> Closed_Silently,
                  closed_trade, balance + final_pnl)
             \<and> snd (snd (close_trade_update_balance strip float_of form closed_trade
                            (balance + final_pnl)))
                 = balance + 2 * final_pnl)"
proof -
  let ?t1 = "t\<lparr>review := \<lparr>outcome = outcome_var form, price = close_price_var form,
                              review_notes = strip (notes_text form),
                              exit_time = exit_time_var form,
                              max_drawdown_pips = max_drawdown_pips_var form\<rparr>,
                   sl_to_be := sl_to_be_var form\<rparr>"
  let ?remaining = "lot_size (info t) - field_total ''amount'' (partial_closes t)"
  let ?final = "field_total ''pnl'' (partial_closes t)
                + (case float_of (close_price_var form) of
                     None \<Rightarrow> 0
                   | Some close_price \<Rightarrow>
                       if ?remaining > 0
                       then (if trade_type (info t) = ''Buy''
                             then (close_price - entry_price (info t)) / PIP_VALUE_XAUUSD
                             else (entry_price (info t) - close_price) / PIP_VALUE_XAUUSD)
                            * ?remaining * USD_PER_PIP_PER_LOT
                       else 0)"
  have once: "close_trade_update_balance strip float_of form u b
      = (case float_of (close_price_var form) of
           None \<Rightarrow> Calculation_Warning | Some close_price \<Rightarrow> Closed_Silently,
         ?t1, b + ?final)"
    if "u = t \<or> u = ?t1" for u b
    using that assms
    by (auto simp: close_trade_update_balance_def Let_def sum_get_numeric pips_moved_def
        split: option.splits)
  have first: "close_trade_update_balance strip float_of form t balance
      = (case float_of (close_price_var form) of
           None \<Rightarrow> Calculation_Warning | Some close_price \<Rightarrow> Closed_Silently,
         ?t1, balance + ?final)"
    by (rule once) simp
  have second: "close_trade_update_balance strip float_of form ?t1 (balance + ?final)
      = (case float_of (close_price_var form) of
           None \<Rightarrow> Calculation_Warning | Some close_price \<Rightarrow> Closed_Silently,
         ?t1, balance + ?final + ?final)"
    by (rule once) simp
  show ?thesis
    unfolding Let_def first second by simp
qed

text \<open>
  The example trade (Buy, one lot, entry 2300.0) with half a lot already closed for 300 USD
  is closed at 2310.0 with the balance at 10000: 100 pips on the remaining half lot are 500
  USD, the final P&L is 800 and the balance 10800; closed a second time, 11600.
\<close>

theorem close_trade_final_pnl_witness:
  "list_all (numeric_field ''pnl'') [demo_partial (1 / 2) 60 300]
   \<and> list_all (numeric_field ''amount'') [demo_partial (1 / 2) 60 300]
   \<and> close_trade_update_balance strip_ascii float_decimal
        \<lparr>outcome_var = ''Take Profit Hit'', close_price_var = ''2310.0'',
         notes_text = '' target reached '', exit_time_var = ''14:30'',
         max_drawdown_pips_var = ''12.0'', sl_to_be_var = True\<rparr>
        (demo_trade\<lparr>partial_closes := [demo_partial (1 / 2) 60 300]\<rparr>) 10000
      = (Closed_Silently,
         demo_trade\<lparr>partial_closes := [demo_partial (1 / 2) 60 300],
                     review := \<lparr>outcome = ''Take Profit Hit'', price = ''2310.0'',
                                 review_notes = ''target reached'', exit_time = ''14:30'',
                                 max_drawdown_pips = ''12.0''\<rparr>,
                     sl_to_be := True\<rparr>,
         10800)
   \<and> snd (snd (close_trade_update_balance strip_ascii float_decimal
        \<lparr>outcome_var = ''Take Profit Hit'', close_price_var = ''2310.0'',
         notes_text = '' target reached '', exit_time_var = ''14:30'',
         max_drawdown_pips_var = ''12.0'', sl_to_be_var = True\<rparr>
        (demo_trade\<lparr>partial_closes := [demo_partial (1 / 2) 60 300],
                     review := \<lparr>outcome = ''Take Profit Hit'', price = ''2310.0'',
                                 review_notes = ''target reached'', exit_time = ''14:30'',
                                 max_drawdown_pips = ''12.0''\<rparr>,
                     sl_to_be := True\<rparr>)
        10800)) = 11600"
proof -
  let ?t = "demo_trade\<lparr>partial_closes := [demo_partial (1 / 2) 60 300]\<rparr>"
  let ?form = "\<lparr>outcome_var = ''Take Profit Hit'', close_price_var = ''2310.0'',
            notes_text = '' target reached '', exit_time_var = ''14:30'',
            max_drawdown_pips_var = ''12.0'', sl_to_be_var = True\<rparr>"
  have inf: "info demo_trade
        = \<lparr>trade_type = ''Buy'', entry_price = 2300, lot_size = 1, account_balance = 10000\<rparr>"
    by (simp add: demo_trade_def)
  have nums: "list_all (numeric_field ''pnl'') (partial_closes ?t)"
    "list_all (numeric_field ''amount'') (partial_closes ?t)"
    by (simp_all add: numeric_demo_partial)
  have tot: "field_total ''pnl'' [demo_partial (1 / 2) 60 300] = 300"
    "field_total ''amount'' [demo_partial (1 / 2) 60 300] = 1 / 2"
    by (simp_all add: field_total_def value_demo_partial)
  from close_trade_final_pnl
      [where float_of = float_decimal and strip = strip_ascii and balance = 10000
         and form = ?form, OF nums]
  show ?thesis
    by (simp add: Let_def inf tot float_decimal_samples strip_ascii_samples numeric_demo_partial
        PIP_VALUE_XAUUSD_def USD_PER_PIP_PER_LOT_def)
qed

text \<open>
  The claim as written fails when the close price is not a number. The same trade, half a
  lot remaining, reviewed with the outcome Other and the price left empty: a warning is
  shown, the outcome is recorded, and the balance grows by the 300 USD of the partial
  close alone; no final leg is computed for the remaining half lot.
\<close>

theorem close_trade_unreadable_price_counterexample:
  "lot_size (info (demo_trade\<lparr>partial_closes := [demo_partial (1 / 2) 60 300]\<rparr>))
     - field_total ''amount''
         (partial_closes (demo_trade\<lparr>partial_closes := [demo_partial (1 / 2) 60 300]\<rparr>))
     = 1 / 2
   \<and> field_total ''pnl''
         (partial_closes (demo_trade\<lparr>partial_closes := [demo_partial (1 / 2) 60 300]\<rparr>))
     = 300
   \<and> float_decimal '''' = None
   \<and> close_trade_update_balance strip_ascii float_decimal
        \<lparr>outcome_var = ''Other'', close_price_var = '''', notes_text = '''',
         exit_time_var = '''', max_drawdown_pips_var = '''', sl_to_be_var = False\<rparr>
        (demo_trade\<lparr>partial_closes := [demo_partial (1 / 2) 60 300]\<rparr>) 10000
      = (Calculation_Warning,
         demo_trade\<lparr>review := demo_review ''Other'' '''',
                     partial_closes := [demo_partial (1 / 2) 60 300]\<rparr>,
         10300)"
proof -
  have inf: "info demo_trade
        = \<lparr>trade_type = ''Buy'', entry_price = 2300, lot_size = 1, account_balance = 10000\<rparr>"
    and stb: "sl_to_be demo_trade = False"
    by (simp_all add: demo_trade_def)
  have tot: "field_total ''pnl'' [demo_partial (1 / 2) 60 300] = 300"
    "field_total ''amount'' [demo_partial (1 / 2) 60 300] = 1 / 2"
    by (simp_all add: field_total_def value_demo_partial)
  have "close_trade_update_balance strip_ascii float_decimal
        \<lparr>outcome_var = ''Other'', close_price_var = '''', notes_text = '''',
         exit_time_var = '''', max_drawdown_pips_var = '''', sl_to_be_var = False\<rparr>
        (demo_trade\<lparr>partial_closes := [demo_partial (1 / 2) 60 300]\<rparr>) 10000
      = (Calculation_Warning,
         demo_trade\<lparr>review := demo_review ''Other'' '''',
                     partial_closes := [demo_partial (1 / 2) 60 300]\<rparr>,
         10300)"
    by (simp add: close_trade_update_balance_def Let_def float_decimal_samples
        strip_ascii_samples demo_review_def demo_trade_def get_num_numeric numeric_demo_partial
        value_demo_partial)
  then show ?thesis
    by (simp add: inf tot float_decimal_samples)
qed

subsection \<open>The row of the review table\<close>

lemma trade_row_not_terminal:
  assumes "list_all (numeric_field ''pnl'') (partial_closes t)"
    and "list_all (numeric_field ''pips'') (partial_closes t)"
    and "outcome (review t) \<notin> set terminal_outcomes \<or> float_of (price (review t)) = None"
  shows "trade_row float_of t =
           Inr \<lparr>total_pnl_for_display = field_total ''pnl'' (partial_closes t),
                total_pips_for_display = field_total ''pips'' (partial_closes t),
                win_loss_status = ''Open''\<rparr>"
  using assms by (auto simp: trade_row_def add_pnl_pips_numeric)

lemma trade_row_terminal:
  assumes "list_all (numeric_field ''pnl'') (partial_closes t)"
    and "list_all (numeric_field ''pips'') (partial_closes t)"
    and "list_all (numeric_field ''amount'') (partial_closes t)"
    and "outcome (review t) \<in> set terminal_outcomes"
    and "float_of (price (review t)) = Some close_price"
  shows "\<exists>row. trade_row float_of t = Inr row
    \<and> total_pnl_for_display row =
        field_total ''pnl'' (partial_closes t)
        + (if lot_size (info t) - field_total ''amount'' (partial_closes t) > 0
           then pips_moved (trade_type (info t)) (entry_price (info t)) close_price
                * (lot_size (info t) - field_total ''amount'' (partial_closes t))
                * USD_PER_PIP_PER_LOT
           else 0)
    \<and> win_loss_status row =
        (if total_pnl_for_display row > 0 then ''Win''
         else if total_pnl_for_display row < 0 then ''Loss'' else ''Breakeven'')"
  using assms by (simp add: trade_row_def add_pnl_pips_numeric sum_get_numeric Let_def)

text \<open>
  C4, as the code has it. For every trade with numeric partial closes the row is computed,
  and: when the outcome is one of the four terminal values and the close price reads as a
  number, the total P&L is the sum of the \<^verbatim>\<open>pnl\<close> of the partial closes plus, when the remaining
  lot size is positive, pips moved times remaining lot size times USD per pip per lot, and
  the status is Win, Loss or Breakeven by the sign of that total; when the outcome is not
  terminal, or the close price does not read as a number, the total is the sum of the \<^verbatim>\<open>pnl\<close>
  of the partial closes and the status is Open.
\<close>

theorem trade_row_total_and_status:
  assumes "list_all (numeric_field ''pnl'') (partial_closes t)"
    and "list_all (numeric_field ''pips'') (partial_closes t)"
    and "list_all (numeric_field ''amount'') (partial_closes t)"
  shows "\<exists>row. trade_row float_of t = Inr row
    \<and> (outcome (review t) \<in> set terminal_outcomes
         \<and> float_of (price (review t)) = Some close_price \<longrightarrow>
         total_pnl_for_display row =
           field_total ''pnl'' (partial_closes t)
           + (if lot_size (info t) - field_total ''amount'' (partial_closes t) > 0
              then (if trade_type (info t) = ''Buy''
                    then (close_price - entry_price (info t)) / PIP_VALUE_XAUUSD
                    else (entry_price (info t) - close_price) / PIP_VALUE_XAUUSD)
                   * (lot_size (info t) - field_total ''amount'' (partial_closes t))
                   * USD_PER_PIP_PER_LOT
              else 0)
         \<and> win_loss_status row =
             (if total_pnl_for_display row > 0 then ''Win''
              else if total_pnl_for_display row < 0 then ''Loss'' else ''Breakeven''))
    \<and> (outcome (review t) \<notin> set terminal_outcomes \<or> float_of (price (review t)) = None \<longrightarrow>
         total_pnl_for_display row = field_total ''pnl'' (partial_closes t)
         \<and> win_loss_status row = ''Open'')"
proof (cases "outcome (review t) \<in> set terminal_outcomes
              \<and> (\<exists>c. float_of (price (review t)) = Some c)")
  case True
  then obtain c where c: "float_of (price (review t)) = Some c" by blast
  from True have outc: "outcome (review t) \<in> set terminal_outcomes" by simp
  from trade_row_terminal [where float_of = float_of, OF assms outc c] obtain row where
    "trade_row float_of t = Inr row"
    "total_pnl_for_display row =
        field_total ''pnl'' (partial_closes t)
        + (if lot_size (info t) - field_total ''amount'' (partial_closes t) > 0
           then pips_moved (trade_type (info t)) (entry_price (info t)) c
                * (lot_size (info t) - field_total ''amount'' (partial_closes t))
                * USD_PER_PIP_PER_LOT
           else 0)"
    "win_loss_status row =
        (if total_pnl_for_display row > 0 then ''Win''
         else if total_pnl_for_display row < 0 then ''Loss'' else ''Breakeven'')"
    by blast
  with True c show ?thesis
    by (auto simp: pips_moved_def)
next
  case False
  then have "outcome (review t) \<notin> set terminal_outcomes \<or> float_of (price (review t)) = None"
    by auto
  from trade_row_not_terminal [where float_of = float_of, OF assms(1,2) this] this show ?thesis
    by auto
qed

text \<open>
  The example of the specification: the Buy of one lot at 2300.0, closed at 2310.0, moves
  100 pips, makes 1000 USD and is a Win. The same trade before its review is Open.
\<close>

theorem trade_row_total_and_status_witness:
  "list_all (numeric_field ''pnl'') (partial_closes demo_trade)
   \<and> list_all (numeric_field ''pips'') (partial_closes demo_trade)
   \<and> list_all (numeric_field ''amount'') (partial_closes demo_trade)
   \<and> ''Take Profit Hit'' \<in> set terminal_outcomes
   \<and> float_decimal ''2310.0'' = Some 2310
   \<and> trade_row float_decimal (demo_trade\<lparr>review := demo_review ''Take Profit Hit'' ''2310.0''\<rparr>)
      = Inr \<lparr>total_pnl_for_display = 1000, total_pips_for_display = 100,
             win_loss_status = ''Win''\<rparr>
   \<and> trade_row float_decimal demo_trade
      = Inr \<lparr>total_pnl_for_display = 0, total_pips_for_display = 0, win_loss_status = ''Open''\<rparr>"
proof -
  have pcs: "partial_closes demo_trade = []"
    and inf: "info demo_trade
        = \<lparr>trade_type = ''Buy'', entry_price = 2300, lot_size = 1, account_balance = 10000\<rparr>"
    and rev: "review demo_trade = demo_review '''' ''''"
    by (simp_all add: demo_trade_def demo_review_def)
  have closed_row: "trade_row float_decimal
        (demo_trade\<lparr>review := demo_review ''Take Profit Hit'' ''2310.0''\<rparr>)
      = Inr \<lparr>total_pnl_for_display = 1000, total_pips_for_display = 100,
             win_loss_status = ''Win''\<rparr>"
    by (simp add: trade_row_def pcs inf demo_review_def terminal_outcomes_def
        float_decimal_samples pips_moved_def PIP_VALUE_XAUUSD_def USD_PER_PIP_PER_LOT_def)
  have open_row: "trade_row float_decimal demo_trade
      = Inr \<lparr>total_pnl_for_display = 0, total_pips_for_display = 0, win_loss_status = ''Open''\<rparr>"
    by (simp add: trade_row_def pcs rev demo_review_def terminal_outcomes_def)
  show ?thesis
    using trade_row_total_and_status
      [of "demo_trade\<lparr>review := demo_review ''Take Profit Hit'' ''2310.0''\<rparr>" float_decimal 2310]
      closed_row open_row
    by (simp add: pcs float_decimal_samples terminal_outcomes_def)
qed

text \<open>
  The claim as written fails for a terminal outcome whose close price is not a number. The
  example trade with its whole lot closed by one partial close of 50 USD, and then reviewed
  with the outcome Other and the price left empty: no lot remains, so no final leg is due
  and the total is 50, which is positive, yet the status is Open and not Win.
\<close>

theorem terminal_outcome_open_counterexample:
  "outcome (review (demo_trade\<lparr>review := demo_review ''Other'' '''',
                              partial_closes := [demo_partial 1 5 50]\<rparr>))
     \<in> set terminal_outcomes
   \<and> lot_size (info (demo_trade\<lparr>review := demo_review ''Other'' '''',
                                partial_closes := [demo_partial 1 5 50]\<rparr>))
       - field_total ''amount''
          (partial_closes (demo_trade\<lparr>review := demo_review ''Other'' '''',
                                      partial_closes := [demo_partial 1 5 50]\<rparr>)) = 0
   \<and> trade_row float_decimal
        (demo_trade\<lparr>review := demo_review ''Other'' '''',
                    partial_closes := [demo_partial 1 5 50]\<rparr>)
      = Inr \<lparr>total_pnl_for_display = 50, total_pips_for_display = 5,
             win_loss_status = ''Open''\<rparr>
   \<and> (0 :: real) < 50
   \<and> ''Open'' \<noteq> ''Win''"
proof -
  have inf: "info demo_trade
        = \<lparr>trade_type = ''Buy'', entry_price = 2300, lot_size = 1, account_balance = 10000\<rparr>"
    by (simp add: demo_trade_def)
  have "trade_row float_decimal
        (demo_trade\<lparr>review := demo_review ''Other'' '''',
                    partial_closes := [demo_partial 1 5 50]\<rparr>)
      = Inr \<lparr>total_pnl_for_display = 50, total_pips_for_display = 5,
             win_loss_status = ''Open''\<rparr>"
    by (simp add: trade_row_def demo_review_def terminal_outcomes_def float_decimal_samples
        get_num_numeric numeric_demo_partial value_demo_partial)
  then show ?thesis
    by (simp add: inf demo_review_def terminal_outcomes_def field_total_def value_demo_partial)
qed

subsection \<open>The statistics bar\<close>

lemma total_realized_pnl_returns:
  "list_all (\<lambda>t. list_all (numeric_field ''pnl'') (partial_closes t)
                 \<and> list_all (numeric_field ''amount'') (partial_closes t)) trades \<Longrightarrow>
     \<exists>r. total_realized_pnl float_of acc trades = Inr r"
proof (induction trades arbitrary: acc)
  case Nil
  show ?case by simp
next
  case (Cons t ts)
  then have rest: "\<exists>r. total_realized_pnl float_of a ts = Inr r" for a
    by simp
  from Cons.prems have pnl: "list_all (numeric_field ''pnl'') (partial_closes t)"
    and amt: "list_all (numeric_field ''amount'') (partial_closes t)"
    by simp_all
  show ?case
    using rest
    by (simp add: sum_get_numeric [OF pnl] sum_get_numeric [OF amt] Let_def
        split: option.splits)
qed

lemma py_lower_outcomes:
  "py_lower '''' = ''''"
  "py_lower ''Take Profit Hit'' = ''take profit hit''"
  "py_lower ''Stoploss Hit'' = ''stoploss hit''"
  "py_lower ''Breakeven'' = ''breakeven''"
  "py_lower ''Other'' = ''other''"
  by code_simp+

lemma lower_is_take_profit:
  "oc \<in> set outcome_options \<Longrightarrow>
     (py_lower oc = ''take profit hit'') = (oc = ''Take Profit Hit'')"
  by (auto simp: outcome_options_def py_lower_outcomes)

lemma lower_is_stoploss:
  "oc \<in> set outcome_options \<Longrightarrow>
     (py_lower oc = ''stoploss hit'') = (oc = ''Stoploss Hit'')"
  by (auto simp: outcome_options_def py_lower_outcomes)

lemma count_take_profit:
  "list_all (\<lambda>t. outcome (review t) \<in> set outcome_options) trades \<Longrightarrow>
     filter (\<lambda>t. py_lower (outcome (review t)) = ''take profit hit'') trades
       = filter (\<lambda>t. outcome (review t) = ''Take Profit Hit'') trades"
  by (rule filter_cong) (auto simp: list_all_iff lower_is_take_profit)

lemma count_stoploss:
  "list_all (\<lambda>t. outcome (review t) \<in> set outcome_options) trades \<Longrightarrow>
     filter (\<lambda>t. py_lower (outcome (review t)) = ''stoploss hit'') trades
       = filter (\<lambda>t. outcome (review t) = ''Stoploss Hit'') trades"
  by (rule filter_cong) (auto simp: list_all_iff lower_is_stoploss)

lemma one_in_three: "round_half_even (100 * real 1 / real 3) = 33"
  by (simp add: round_half_even_def)

text \<open>
  C9. Over any list of trades whose outcomes are values of the outcome box (and whose
  partial closes are numeric, so that the bar is computed at all): the win count is the
  number of trades with the outcome \<open>Take Profit Hit\<close>, the loss count the number with
  \<open>Stoploss Hit\<close>, and the win rate is \<open>round(100 * wins / total)\<close>, Python's rounding, and 0
  when there is no trade; three trades of which one is a win give 33.
\<close>

theorem stats_bar_counts_and_win_rate:
  assumes "list_all (\<lambda>t. outcome (review t) \<in> set outcome_options) trades"
    and "list_all (\<lambda>t. list_all (numeric_field ''pnl'') (partial_closes t)
                      \<and> list_all (numeric_field ''amount'') (partial_closes t)) trades"
  shows "\<exists>st. update_stats_bar float_of trades = Inr st
    \<and> total st = length trades
    \<and> wins st = length (filter (\<lambda>t. outcome (review t) = ''Take Profit Hit'') trades)
    \<and> losses st = length (filter (\<lambda>t. outcome (review t) = ''Stoploss Hit'') trades)
    \<and> wr st = (if length trades = 0 then 0
               else round_half_even (100 * real (wins st) / real (length trades)))
    \<and> (length trades = 3 \<and> wins st = 1 \<longrightarrow> wr st = 33)"
proof -
  from total_realized_pnl_returns [OF assms(2)]
  obtain r where r: "total_realized_pnl float_of 0 trades = Inr r"
    by blast
  show ?thesis
    using count_take_profit [OF assms(1)] count_stoploss [OF assms(1)] one_in_three
    by (simp add: update_stats_bar_def r Let_def)
qed

text \<open>
  Three copies of the example trade: one closed at its target of 2310.0, one stopped at
  2295.0, one still open. One win, one loss, a win rate of 33, and 1000 - 500 = 500 USD.
  No trade at all gives a win rate of 0.
\<close>

theorem stats_bar_counts_and_win_rate_witness:
  "list_all (\<lambda>t. outcome (review t) \<in> set outcome_options)
     [demo_trade\<lparr>review := demo_review ''Take Profit Hit'' ''2310.0''\<rparr>,
      demo_trade\<lparr>review := demo_review ''Stoploss Hit'' ''2295.0''\<rparr>,
      demo_trade]
   \<and> update_stats_bar float_decimal
     [demo_trade\<lparr>review := demo_review ''Take Profit Hit'' ''2310.0''\<rparr>,
      demo_trade\<lparr>review := demo_review ''Stoploss Hit'' ''2295.0''\<rparr>,
      demo_trade]
     = Inr \<lparr>total = 3, wins = 1, losses = 1, wr = 33, realized = 500\<rparr>
   \<and> update_stats_bar float_decimal []
     = Inr \<lparr>total = 0, wins = 0, losses = 0, wr = 0, realized = 0\<rparr>"
proof -
  have pcs: "partial_closes demo_trade = []"
    and inf: "info demo_trade
        = \<lparr>trade_type = ''Buy'', entry_price = 2300, lot_size = 1, account_balance = 10000\<rparr>"
    and rev: "review demo_trade = demo_review '''' ''''"
    by (simp_all add: demo_trade_def demo_review_def)
  have pnl: "total_realized_pnl float_decimal 0
     [demo_trade\<lparr>review := demo_review ''Take Profit Hit'' ''2310.0''\<rparr>,
      demo_trade\<lparr>review := demo_review ''Stoploss Hit'' ''2295.0''\<rparr>,
      demo_trade] = Inr 500"
    by (simp add: pcs inf rev demo_review_def terminal_outcomes_def float_decimal_samples
        pips_moved_def PIP_VALUE_XAUUSD_def USD_PER_PIP_PER_LOT_def)
  have three: "update_stats_bar float_decimal
     [demo_trade\<lparr>review := demo_review ''Take Profit Hit'' ''2310.0''\<rparr>,
      demo_trade\<lparr>review := demo_review ''Stoploss Hit'' ''2295.0''\<rparr>,
      demo_trade]
     = Inr \<lparr>total = 3, wins = 1, losses = 1, wr = 33, realized = 500\<rparr>"
    unfolding update_stats_bar_def pnl
    by (simp add: rev demo_review_def py_lower_outcomes round_half_even_def)
  have none: "update_stats_bar float_decimal []
     = Inr \<lparr>total = 0, wins = 0, losses = 0, wr = 0, realized = 0\<rparr>"
    by (simp add: update_stats_bar_def)
  have outs: "list_all (\<lambda>t. outcome (review t) \<in> set outcome_options)
     [demo_trade\<lparr>review := demo_review ''Take Profit Hit'' ''2310.0''\<rparr>,
      demo_trade\<lparr>review := demo_review ''Stoploss Hit'' ''2295.0''\<rparr>,
      demo_trade]"
    by (simp add: rev demo_review_def outcome_options_def)
  have nums: "list_all (\<lambda>t. list_all (numeric_field ''pnl'') (partial_closes t)
                      \<and> list_all (numeric_field ''amount'') (partial_closes t))
     [demo_trade\<lparr>review := demo_review ''Take Profit Hit'' ''2310.0''\<rparr>,
      demo_trade\<lparr>review := demo_review ''Stoploss Hit'' ''2295.0''\<rparr>,
      demo_trade]"
    by (simp add: pcs)
  from stats_bar_counts_and_win_rate [OF outs nums, where float_of = float_decimal]
    three none outs
  show ?thesis by simp
qed

end
